theory Spec2Isabelle
  imports Main "HOL-Library.Word"
begin

section \<open>Python values and numeric arrays\<close>

text \<open>
  The communicator of \<^verbatim>\<open>chainermn/communicators/_base.py\<close> moves numpy arrays between
  processes. An array is modelled at the level the bulk channel sees it: a shape, an
  element type and the bytes of its elements in C order. \<^verbatim>\<open>ndim\<close> is the length of the
  shape, as in numpy.
\<close>

type_synonym byte = "8 word"

datatype dtype = Int8 | Int16 | Float32 | Float64

fun itemsize :: "dtype \<Rightarrow> nat" where
  "itemsize Int8 = 1"
| "itemsize Int16 = 2"
| "itemsize Float32 = 4"
| "itemsize Float64 = 8"

record ndarray =
  shape :: "nat list"
  dtype :: dtype
  data :: "byte list"

definition ndim :: "ndarray \<Rightarrow> nat" where
  "ndim a = length (shape a)"

text \<open>The number of elements of an array of a given shape (one for the empty shape).\<close>

definition array_size :: "nat list \<Rightarrow> nat" where
  "array_size s = prod_list s"

text \<open>
  \<^verbatim>\<open>numpy.prod(shape)\<close> returns a numpy scalar. For a shape with at least one dimension
  it is the integer product of the dimensions. The empty shape \<^verbatim>\<open>()\<close> is converted to an
  empty array of floats, and the result is the float \<^verbatim>\<open>1.0\<close>.
\<close>

datatype scalar = Integer nat | Floating nat

definition numpy_prod :: "nat list \<Rightarrow> scalar" where
  "numpy_prod s = (if s = [] then Floating 1 else Integer (prod_list s))"


text \<open>
  The payloads a caller can hand to \<^verbatim>\<open>send\<close>: a numpy array, or some other Python
  object. Strings, tuples and lists are instances of \<^verbatim>\<open>collections.Iterable\<close>;
  integers and \<^verbatim>\<open>None\<close> are not. Payload arrays are host (numpy) arrays, for which
  \<^verbatim>\<open>chainer.cuda.get_array_module(array) is not numpy\<close> is false.
\<close>

datatype pyobj =
    NdArray ndarray
  | PyInt int
  | PyNone
  | PyStr string
  | PyTuple "pyobj list"
  | PyList "pyobj list"

datatype error =
    ValueError
  | AttributeError
  | TypeError
  | AssertionError
  | RuntimeError
  | TransportError
  | NoReturn

text \<open>
  \<^const>\<open>ValueError\<close> is what the specification calls InvalidPayloadKind,
  \<^const>\<open>RuntimeError\<close> what it calls DeviceCollectiveUnavailable. \<^const>\<open>NoReturn\<close> is not
  an exception: it is the outcome of a blocking receive that no message ever matches.
\<close>

fun is_ndarray :: "pyobj \<Rightarrow> bool" where
  "is_ndarray (NdArray a) = True"
| "is_ndarray x = False"

fun is_Iterable :: "pyobj \<Rightarrow> bool" where
  "is_Iterable (NdArray a) = True"
| "is_Iterable (PyStr s) = True"
| "is_Iterable (PyTuple xs) = True"
| "is_Iterable (PyList xs) = True"
| "is_Iterable x = False"

text \<open>
  The elements \<^verbatim>\<open>for x in obj\<close> visits. A string yields its characters as strings of
  length one. An array is only iterated by \<^verbatim>\<open>send\<close> after it has been wrapped in a list,
  so its own iteration is never used; it is given as the empty sequence.
\<close>

fun iter :: "pyobj \<Rightarrow> pyobj list" where
  "iter (PyStr s) = map (\<lambda>c. PyStr [c]) s"
| "iter (PyTuple xs) = xs"
| "iter (PyList xs) = xs"
| "iter x = []"

fun get_ndim :: "pyobj \<Rightarrow> error + nat" where
  "get_ndim (NdArray a) = Inr (ndim a)"
| "get_ndim x = Inl AttributeError"

fun get_shape :: "pyobj \<Rightarrow> error + nat list" where
  "get_shape (NdArray a) = Inr (shape a)"
| "get_shape x = Inl AttributeError"

text \<open>A list comprehension \<^verbatim>\<open>[f(x) for x in xs]\<close>: the first exception ends it.\<close>

fun comprehension :: "('a \<Rightarrow> error + 'b) \<Rightarrow> 'a list \<Rightarrow> error + 'b list" where
  "comprehension f [] = Inr []"
| "comprehension f (x # xs) =
     (case f x of
        Inl e \<Rightarrow> Inl e
      | Inr y \<Rightarrow> (case comprehension f xs of Inl e \<Rightarrow> Inl e | Inr ys \<Rightarrow> Inr (y # ys)))"

section \<open>The message descriptor\<close>

record msgtype =
  is_tuple :: bool
  narr :: nat
  ndims :: "nat list"
  shapes :: "nat list list"

text \<open>\<^verbatim>\<open>_MessageType.__init__\<close>: the three branches in the order of the source.\<close>

definition MessageType :: "pyobj \<Rightarrow> error + msgtype" where
  "MessageType obj =
     (case obj of
        NdArray a \<Rightarrow>
          Inr \<lparr>is_tuple = False, narr = 1, ndims = [ndim a], shapes = [shape a]\<rparr>
      | _ \<Rightarrow>
          if is_Iterable obj then
            (case comprehension get_ndim (iter obj) of
               Inl e \<Rightarrow> Inl e
             | Inr nd \<Rightarrow>
                 (case comprehension get_shape (iter obj) of
                    Inl e \<Rightarrow> Inl e
                  | Inr sh \<Rightarrow>
                      Inr \<lparr>is_tuple = True, narr = length (iter obj), ndims = nd, shapes = sh\<rparr>))
          else Inl ValueError)"

section \<open>The process group and its transport\<close>

text \<open>
  A process-group handle as one process holds it: its own rank, and the processor name
  of every rank of the group (the placement metadata). The size of the group is the
  number of ranks.
\<close>

record mpi_comm =
  rank :: nat
  hosts :: "string list"

definition comm_size :: "mpi_comm \<Rightarrow> nat" where
  "comm_size c = length (hosts c)"

text \<open>
  The transport is mpi4py, outside the repository. It is modelled by what the
  communicator can observe of it: the messages in flight, in the order they were sent,
  each under its envelope (source rank, destination rank, tag), and a log of every
  operation the communicator invoked on it. A message is either a pickled descriptor
  (sent by the lower-case \<^verbatim>\<open>send\<close>) or a raw buffer (sent by \<^verbatim>\<open>Send\<close>). Both travel
  under the same envelope, and messages of one envelope do not overtake each other.
\<close>

type_synonym envelope = "nat \<times> nat \<times> int"

datatype packet = Header msgtype | Bulk "byte list"

datatype op =
    Op_send envelope msgtype
  | Op_Send envelope "byte list"
  | Op_recv envelope
  | Op_Recv envelope nat
  | Op_Split mpi_comm int int
  | Op_init_ranks mpi_comm
  | Op_NcclCommunicator nat nat

record world =
  ops :: "op list"
  inflight :: "(envelope \<times> packet) list"

text \<open>\<^verbatim>\<open>mpi_comm.send(obj, dest=dest, tag=tag)\<close>: the header channel.\<close>

definition mpi_send :: "mpi_comm \<Rightarrow> msgtype \<Rightarrow> nat \<Rightarrow> int \<Rightarrow> world \<Rightarrow> world" where
  "mpi_send c m dest tag w =
     w\<lparr>ops := ops w @ [Op_send (rank c, dest, tag) m],
       inflight := inflight w @ [((rank c, dest, tag), Header m)]\<rparr>"

text \<open>\<^verbatim>\<open>mpi_comm.Send(buf, dest=dest, tag=tag)\<close>: the bulk channel.\<close>

definition mpi_Send :: "mpi_comm \<Rightarrow> byte list \<Rightarrow> nat \<Rightarrow> int \<Rightarrow> world \<Rightarrow> world" where
  "mpi_Send c buf dest tag w =
     w\<lparr>ops := ops w @ [Op_Send (rank c, dest, tag) buf],
       inflight := inflight w @ [((rank c, dest, tag), Bulk buf)]\<rparr>"

text \<open>The first message in flight under an envelope, and the queue without it.\<close>

fun match_first ::
  "envelope \<Rightarrow> (envelope \<times> packet) list \<Rightarrow> (packet \<times> (envelope \<times> packet) list) option" where
  "match_first e [] = None"
| "match_first e (x # q) =
     (if fst x = e then Some (snd x, q)
      else (case match_first e q of None \<Rightarrow> None | Some (p, q') \<Rightarrow> Some (p, x # q')))"


text \<open>
  \<^verbatim>\<open>mpi_comm.Recv(buf, source=source, tag=tag)\<close>: blocks until a message matches, and
  copies its bytes over the front of the buffer. A message longer than the buffer is a
  truncation error; a shorter one leaves the rest of the buffer as it was. A pickled
  descriptor that meets \<^verbatim>\<open>Recv\<close> is taken as a transport error, as is a raw buffer that
  meets \<^verbatim>\<open>recv\<close>. Sending never fails, and a send does not wait for its receive.
\<close>

definition mpi_Recv :: "mpi_comm \<Rightarrow> ndarray \<Rightarrow> nat \<Rightarrow> int \<Rightarrow> world \<Rightarrow> (error + ndarray) \<times> world" where
  "mpi_Recv c buf source tag w =
     (let w1 = w\<lparr>ops := ops w @ [Op_Recv (source, rank c, tag) (length (data buf))]\<rparr> in
      case match_first (source, rank c, tag) (inflight w) of
        None \<Rightarrow> (Inl NoReturn, w1)
      | Some (Header m, q) \<Rightarrow> (Inl TransportError, w1\<lparr>inflight := q\<rparr>)
      | Some (Bulk b, q) \<Rightarrow>
          if length b \<le> length (data buf)
          then (Inr (buf\<lparr>data := b @ drop (length b) (data buf)\<rparr>), w1\<lparr>inflight := q\<rparr>)
          else (Inl TransportError, w1\<lparr>inflight := q\<rparr>))"

section \<open>Arrays and buffers\<close>

text \<open>
  Modelled from the spec: \<^verbatim>\<open>_memory_utility.array_to_buffer_object\<close> is not among the
  sources; the specification has it "obtain a contiguous transferable buffer view of
  the array's bytes". An object that is not an array has no such view.
\<close>

fun array_to_buffer_object :: "pyobj \<Rightarrow> error + byte list" where
  "array_to_buffer_object (NdArray a) = Inr (data a)"
| "array_to_buffer_object x = Inl TypeError"

text \<open>
  \<^verbatim>\<open>numpy.empty(n, dtype=numpy.float32)\<close>: a flat array of \<open>n\<close> elements of four bytes
  each. numpy does not initialise it; what the memory holds is given by \<open>uninit\<close>. A
  count that is a float is refused with \<^verbatim>\<open>TypeError\<close>.
\<close>

fun numpy_empty :: "(nat \<Rightarrow> byte) \<Rightarrow> scalar \<Rightarrow> error + ndarray" where
  "numpy_empty uninit (Integer n) =
     Inr \<lparr>shape = [n], dtype = Float32, data = map uninit [0 ..< itemsize Float32 * n]\<rparr>"
| "numpy_empty uninit (Floating x) = Inl TypeError"

text \<open>\<^verbatim>\<open>buf.reshape(shape)\<close>: numpy refuses a shape of another size.\<close>

definition reshape :: "ndarray \<Rightarrow> nat list \<Rightarrow> error + ndarray" where
  "reshape buf s =
     (if array_size s = array_size (shape buf) then Inr (buf\<lparr>shape := s\<rparr>) else Inl ValueError)"

section \<open>The communicator: send and recv\<close>

record CommunicatorBase =
  mpi_comm :: mpi_comm

definition CommunicatorBase_init :: "mpi_comm \<Rightarrow> CommunicatorBase" where
  "CommunicatorBase_init c = \<lparr>mpi_comm = c\<rparr>"

text \<open>
  The loop \<^verbatim>\<open>for array in obj\<close> of \<^verbatim>\<open>send\<close>. For a host array the test on
  \<^verbatim>\<open>get_array_module\<close> is false and no stream is synchronised.
\<close>

fun Send_loop :: "mpi_comm \<Rightarrow> pyobj list \<Rightarrow> nat \<Rightarrow> int \<Rightarrow> world \<Rightarrow> (error + unit) \<times> world" where
  "Send_loop c [] dest tag w = (Inr (), w)"
| "Send_loop c (array # rest) dest tag w =
     (case array_to_buffer_object array of
        Inl e \<Rightarrow> (Inl e, w)
      | Inr buf \<Rightarrow> Send_loop c rest dest tag (mpi_Send c buf dest tag w))"

text \<open>
  \<^verbatim>\<open>send\<close> and \<^verbatim>\<open>recv\<close> begin with \<^verbatim>\<open>chainer.utils.experimental\<close>, which issues a
  warning and touches neither the payload nor the transport.
\<close>

definition send ::
  "'a CommunicatorBase_scheme \<Rightarrow> pyobj \<Rightarrow> nat \<Rightarrow> int \<Rightarrow> world \<Rightarrow> (error + unit) \<times> world" where
  "send self obj dest tag w =
     (case MessageType obj of
        Inl e \<Rightarrow> (Inl e, w)
      | Inr msgtype \<Rightarrow>
          (let w1 = mpi_send (mpi_comm self) msgtype dest tag w;
               objs = (if \<not> is_tuple msgtype then [obj] else iter obj)
           in Send_loop (mpi_comm self) objs dest tag w1))"

text \<open>
  One round of either receiving branch: allocate, receive, reshape.
\<close>

definition Recv_one ::
  "(nat \<Rightarrow> byte) \<Rightarrow> mpi_comm \<Rightarrow> nat list \<Rightarrow> nat \<Rightarrow> int \<Rightarrow> world \<Rightarrow> (error + ndarray) \<times> world" where
  "Recv_one uninit c s source tag w =
     (case numpy_empty uninit (numpy_prod s) of
        Inl e \<Rightarrow> (Inl e, w)
      | Inr buf \<Rightarrow>
          (case mpi_Recv c buf source tag w of
             (Inl e, w') \<Rightarrow> (Inl e, w')
           | (Inr buf', w') \<Rightarrow>
               (case reshape buf' s of Inl e \<Rightarrow> (Inl e, w') | Inr a \<Rightarrow> (Inr a, w'))))"



section \<open>Topology discovery and hierarchical scopes\<close>

text \<open>
  Modelled from the spec: \<^verbatim>\<open>_communication_utility.init_ranks\<close> is not among the
  sources. The specification (4.3) partitions the global ranks by host identity, orders
  the ranks of a partition and the partitions themselves by original global rank, and
  returns the global rank, the node-local rank and size, and the node's rank and the
  number of nodes. \<open>nodes\<close> lists the distinct hosts in order of first appearance.
\<close>

fun nodes :: "string list \<Rightarrow> string list" where
  "nodes [] = []"
| "nodes (h # hs) = h # filter (\<lambda>x. x \<noteq> h) (nodes hs)"

fun index_of :: "'a \<Rightarrow> 'a list \<Rightarrow> nat" where
  "index_of x [] = 0"
| "index_of x (y # ys) = (if x = y then 0 else Suc (index_of x ys))"

definition init_ranks :: "mpi_comm \<Rightarrow> nat \<times> nat \<times> nat \<times> nat \<times> nat" where
  "init_ranks c =
     (let h = hosts c ! rank c in
      (rank c,
       length (filter (\<lambda>x. x = h) (take (rank c) (hosts c))),
       length (filter (\<lambda>x. x = h) (hosts c)),
       index_of h (nodes (hosts c)),
       length (nodes (hosts c))))"

text \<open>
  \<^verbatim>\<open>mpi_comm.Split(color, key)\<close> is collective: every rank of the group calls it with
  its own colour and key. \<open>peers\<close> gives what the other ranks pass. The new group holds
  the ranks of the caller's colour, ordered by key and, for equal keys, by old rank.
\<close>

definition mpi_Split ::
  "mpi_comm \<Rightarrow> (nat \<Rightarrow> int \<times> int) \<Rightarrow> int \<Rightarrow> int \<Rightarrow> world \<Rightarrow> mpi_comm \<times> world" where
  "mpi_Split c peers color key w =
     (let ck = peers(rank c := (color, key));
          members = sort_key (\<lambda>r. snd (ck r))
                      (filter (\<lambda>r. fst (ck r) = color) [0 ..< length (hosts c)])
      in (\<lparr>rank = index_of (rank c) members, hosts = map (\<lambda>r. hosts c ! r) members\<rparr>,
          w\<lparr>ops := ops w @ [Op_Split c color key]\<rparr>))"

record nccl_comm =
  ndev :: nat
  dev_rank :: nat

text \<open>
  Modelled from the spec: \<^verbatim>\<open>_communication_utility.init_comms\<close> is not among the
  sources. The specification (4.4) builds the intra-node scope by partitioning the base
  group with the node rank as colour and the node-local rank as key, the inter-node
  scope with the node-local rank as colour and the node rank as key, and, when device
  collectives are requested, the device scope from the membership of the intra-node
  scope. Every rank takes its colour and key from its own topology record.
\<close>

definition init_comms ::
  "mpi_comm \<Rightarrow> nat \<Rightarrow> nat \<Rightarrow> nat \<Rightarrow> bool \<Rightarrow> world
    \<Rightarrow> (mpi_comm \<times> mpi_comm \<times> nccl_comm option) \<times> world" where
  "init_comms c intra_rank intra_size inter_rank use_nccl w =
     (let intra_peers = (\<lambda>r. case init_ranks (c\<lparr>rank := r\<rparr>) of
                                (g, ir, isz, nr, nsz) \<Rightarrow> (int nr, int ir));
          inter_peers = (\<lambda>r. case init_ranks (c\<lparr>rank := r\<rparr>) of
                                (g, ir, isz, nr, nsz) \<Rightarrow> (int ir, int nr));
          (intra_c, w1) = mpi_Split c intra_peers (int inter_rank) (int intra_rank) w;
          (inter_c, w2) = mpi_Split c inter_peers (int intra_rank) (int inter_rank) w1
      in if use_nccl
         then ((intra_c, inter_c, Some \<lparr>ndev = comm_size intra_c, dev_rank = rank intra_c\<rparr>),
               w2\<lparr>ops := ops w2 @ [Op_NcclCommunicator (comm_size intra_c) (rank intra_c)]\<rparr>)
         else ((intra_c, inter_c, None), w2))"

section \<open>The node-aware communicator\<close>

text \<open>
  The subclass extends the base record. The three scopes are \<open>None\<close> until built. The
  attribute \<^verbatim>\<open>intra_nccl_comm\<close> is assigned only when \<^verbatim>\<open>use_nccl\<close> holds: the outer
  \<open>None\<close> is an attribute that was never assigned, \<open>Some None\<close> the Python value
  \<^verbatim>\<open>None\<close>.
\<close>

record NodeAwareCommunicatorBase = CommunicatorBase +
  use_nccl :: bool
  intra_rank :: nat
  intra_size :: nat
  inter_rank :: nat
  inter_size :: nat
  inter_mpi_comm :: "mpi_comm option"
  intra_mpi_comm :: "mpi_comm option"
  intra_nccl_comm :: "nccl_comm option option"

text \<open>\<^verbatim>\<open>_init_ranks\<close>: the collective discovery, and the assertion on its first entry.\<close>

definition self_init_ranks ::
  "mpi_comm \<Rightarrow> world \<Rightarrow> (error + nat \<times> nat \<times> nat \<times> nat \<times> nat) \<times> world" where
  "self_init_ranks c w =
     (let my_ranks = init_ranks c;
          w' = w\<lparr>ops := ops w @ [Op_init_ranks c]\<rparr>
      in if fst my_ranks \<noteq> rank c then (Inl AssertionError, w') else (Inr my_ranks, w'))"

text \<open>
  \<^verbatim>\<open>NodeAwareCommunicatorBase.__init__(self, mpi_comm, use_nccl)\<close>. The flag
  \<^verbatim>\<open>nccl._available\<close> is a global of a module outside the sources.
\<close>

definition NodeAwareCommunicatorBase_init ::
  "bool \<Rightarrow> mpi_comm \<Rightarrow> bool \<Rightarrow> world \<Rightarrow> (error + NodeAwareCommunicatorBase) \<times> world" where
  "NodeAwareCommunicatorBase_init nccl_available c use_nccl' w =
     (if use_nccl' \<and> \<not> nccl_available then (Inl RuntimeError, w)
      else
        (case self_init_ranks c w of
           (Inl e, w') \<Rightarrow> (Inl e, w')
         | (Inr (g, ir, isz, nr, nsz), w') \<Rightarrow>
             (Inr \<lparr>mpi_comm = c, use_nccl = use_nccl',
                   intra_rank = ir, intra_size = isz, inter_rank = nr, inter_size = nsz,
                   inter_mpi_comm = None, intra_mpi_comm = None,
                   intra_nccl_comm = (if use_nccl' then Some None else None)\<rparr>, w')))"

text \<open>\<^verbatim>\<open>_init_comms\<close>: the guard first, then the construction.\<close>

definition self_init_comms ::
  "NodeAwareCommunicatorBase \<Rightarrow> world \<Rightarrow> (error + NodeAwareCommunicatorBase) \<times> world" where
  "self_init_comms self w =
     (if inter_mpi_comm self \<noteq> None then
        (if intra_mpi_comm self = None then (Inl AssertionError, w)
         else if \<not> use_nccl self then (Inr self, w)
         else (case intra_nccl_comm self of
                 None \<Rightarrow> (Inl AttributeError, w)
               | Some None \<Rightarrow> (Inl AssertionError, w)
               | Some (Some d) \<Rightarrow> (Inr self, w)))
      else
        (case init_comms (mpi_comm self) (intra_rank self) (intra_size self) (inter_rank self)
                (use_nccl self) w of
           ((intra_c, inter_c, dev), w') \<Rightarrow>
             (Inr (self\<lparr>intra_mpi_comm := Some intra_c, inter_mpi_comm := Some inter_c,
                        intra_nccl_comm :=
                          (if use_nccl self then Some dev else intra_nccl_comm self)\<rparr>), w')))"

section \<open>Splitting a communicator\<close>

datatype pyclass = CommunicatorBase_class | NodeAwareCommunicatorBase_class

datatype communicator =
    CommunicatorBase_object CommunicatorBase
  | NodeAwareCommunicatorBase_object NodeAwareCommunicatorBase

fun class_of :: "communicator \<Rightarrow> pyclass" where
  "class_of (CommunicatorBase_object s) = CommunicatorBase_class"
| "class_of (NodeAwareCommunicatorBase_object s) = NodeAwareCommunicatorBase_class"

fun mpi_comm_of :: "communicator \<Rightarrow> mpi_comm" where
  "mpi_comm_of (CommunicatorBase_object s) = mpi_comm s"
| "mpi_comm_of (NodeAwareCommunicatorBase_object s) = mpi_comm s"

text \<open>
  Calling a class with the keyword argument \<^verbatim>\<open>mpi_comm\<close> and, when the caller passes
  it, \<^verbatim>\<open>use_nccl\<close>. Python binds the arguments to the parameters of \<^verbatim>\<open>__init__\<close>: a
  required parameter without an argument, or an argument without a parameter, is a
  \<^verbatim>\<open>TypeError\<close>, raised before the body of \<^verbatim>\<open>__init__\<close> runs.
\<close>

fun call_class ::
  "bool \<Rightarrow> pyclass \<Rightarrow> mpi_comm \<Rightarrow> bool option \<Rightarrow> world \<Rightarrow> (error + communicator) \<times> world" where
  "call_class nccl_available CommunicatorBase_class c None w =
     (Inr (CommunicatorBase_object (CommunicatorBase_init c)), w)"
| "call_class nccl_available CommunicatorBase_class c (Some u) w = (Inl TypeError, w)"
| "call_class nccl_available NodeAwareCommunicatorBase_class c None w = (Inl TypeError, w)"
| "call_class nccl_available NodeAwareCommunicatorBase_class c (Some u) w =
     (case NodeAwareCommunicatorBase_init nccl_available c u w of
        (Inl e, w') \<Rightarrow> (Inl e, w')
      | (Inr s, w') \<Rightarrow> (Inr (NodeAwareCommunicatorBase_object s), w'))"

text \<open>
  \<^verbatim>\<open>split\<close>: \<^verbatim>\<open>self.__class__(mpi_comm=self.mpi_comm.Split(color, key))\<close>. The argument
  is evaluated first, then the class is called with that one keyword argument.
\<close>

definition split ::
  "bool \<Rightarrow> communicator \<Rightarrow> (nat \<Rightarrow> int \<times> int) \<Rightarrow> int \<Rightarrow> int \<Rightarrow> world
    \<Rightarrow> (error + communicator) \<times> world" where
  "split nccl_available self peers color key w =
     (case mpi_Split (mpi_comm_of self) peers color key w of
        (c', w') \<Rightarrow> call_class nccl_available (class_of self) c' None w')"

section \<open>Notions used in the statements\<close>

text \<open>
  The arrays among the elements of a sequence, in order.
\<close>

fun the_arrays :: "pyobj list \<Rightarrow> ndarray list" where
  "the_arrays [] = []"
| "the_arrays (NdArray a # xs) = a # the_arrays xs"
| "the_arrays (x # xs) = the_arrays xs"

text \<open>
  The arrays of a payload, a single array counting as a sequence of one.
\<close>

definition payload_arrays :: "pyobj \<Rightarrow> ndarray list" where
  "payload_arrays obj = (case obj of NdArray a \<Rightarrow> [a] | _ \<Rightarrow> the_arrays (iter obj))"






text \<open>
  The two states of the scope builder: a communicator is initialized once the
  inter-node and intra-node scopes exist and, when device collectives are in use, the
  device scope as well.
\<close>

definition Initialized :: "NodeAwareCommunicatorBase \<Rightarrow> bool" where
  "Initialized s \<longleftrightarrow>
     inter_mpi_comm s \<noteq> None \<and> intra_mpi_comm s \<noteq> None
     \<and> (use_nccl s \<longrightarrow> (\<exists>d. intra_nccl_comm s = Some (Some d)))"




definition arr3 :: ndarray where
  "arr3 = \<lparr>shape = [3], dtype = Float32, data = [0, 0, 128, 63, 0, 0, 0, 64, 0, 0, 64, 64]\<rparr>"

definition arr22 :: ndarray where
  "arr22 = \<lparr>shape = [2, 2], dtype = Float32,
            data = [0, 0, 128, 63, 0, 0, 0, 64, 0, 0, 64, 64, 0, 0, 128, 64]\<rparr>"


definition proc :: "nat \<Rightarrow> CommunicatorBase" where
  "proc r = CommunicatorBase_init \<lparr>rank = r, hosts = [''A'', ''A'', ''B'', ''B'']\<rparr>"

definition idle :: world where
  "idle = \<lparr>ops = [], inflight = []\<rparr>"

definition four :: "nat \<Rightarrow> mpi_comm" where
  "four r = \<lparr>rank = r, hosts = [''A'', ''A'', ''B'', ''B'']\<rparr>"

text \<open>
  The communicator of rank 2 of the four processes, before and after its scopes are
  built.
\<close>

definition unbuilt :: NodeAwareCommunicatorBase where
  "unbuilt = \<lparr>mpi_comm = four 2, use_nccl = True,
               intra_rank = 0, intra_size = 2, inter_rank = 1, inter_size = 2,
               inter_mpi_comm = None, intra_mpi_comm = None, intra_nccl_comm = Some None\<rparr>"

definition built :: NodeAwareCommunicatorBase where
  "built = \<lparr>mpi_comm = four 2, use_nccl = True,
             intra_rank = 0, intra_size = 2, inter_rank = 1, inter_size = 2,
             inter_mpi_comm = Some \<lparr>rank = 1, hosts = [''A'', ''B'']\<rparr>,
             intra_mpi_comm = Some \<lparr>rank = 0, hosts = [''B'', ''B'']\<rparr>,
             intra_nccl_comm = Some (Some \<lparr>ndev = 2, dev_rank = 0\<rparr>)\<rparr>"

section \<open>The descriptor\<close>

lemma comprehension_ndim_Inr:
  "comprehension get_ndim xs = Inr nd \<Longrightarrow> xs = map NdArray (the_arrays xs) \<and> nd = map ndim (the_arrays xs)"
proof (induction xs arbitrary: nd)
  case Nil
  then show ?case by simp
next
  case (Cons x xs)
  then show ?case
    by (cases x) (auto split: sum.splits)
qed

lemma comprehension_shape_Inr:
  "comprehension get_shape xs = Inr sh \<Longrightarrow> xs = map NdArray (the_arrays xs) \<and> sh = map shape (the_arrays xs)"
proof (induction xs arbitrary: sh)
  case Nil
  then show ?case by simp
next
  case (Cons x xs)
  then show ?case
    by (cases x) (auto split: sum.splits)
qed



lemma the_arrays_map [simp]: "the_arrays (map NdArray as) = as"
  by (induction as) auto

lemma comprehension_ndim_arrays [simp]:
  "comprehension get_ndim (map NdArray as) = Inr (map ndim as)"
  by (induction as) auto

lemma comprehension_shape_arrays [simp]:
  "comprehension get_shape (map NdArray as) = Inr (map shape as)"
  by (induction as) auto

lemma MessageType_Inr:
  assumes "MessageType obj = Inr m"
  shows "m = \<lparr>is_tuple = \<not> is_ndarray obj, narr = length (payload_arrays obj),
              ndims = map ndim (payload_arrays obj), shapes = map shape (payload_arrays obj)\<rparr>
         \<and> (if is_ndarray obj then [obj] else iter obj) = map NdArray (payload_arrays obj)"
proof (cases obj)
  case (NdArray a)
  with assms show ?thesis by (auto simp: MessageType_def payload_arrays_def)
next
  case (PyInt i)
  with assms show ?thesis by (simp add: MessageType_def)
next
  case PyNone
  with assms show ?thesis by (simp add: MessageType_def)
next
  case (PyStr s)
  with assms show ?thesis
    by (auto simp: MessageType_def payload_arrays_def split: sum.splits
        dest!: comprehension_ndim_Inr comprehension_shape_Inr) (metis length_map)+
next
  case (PyTuple xs)
  with assms show ?thesis
    by (auto simp: MessageType_def payload_arrays_def split: sum.splits
        dest!: comprehension_ndim_Inr comprehension_shape_Inr) (metis length_map)+
next
  case (PyList xs)
  with assms show ?thesis
    by (auto simp: MessageType_def payload_arrays_def split: sum.splits
        dest!: comprehension_ndim_Inr comprehension_shape_Inr) (metis length_map)+
qed

text \<open>
  C3, as amended. Every descriptor that construction produces has as many dims and as
  many shapes as its array count, each shape as long as its dims entry says, and, for a
  container, an array count equal to the number of elements of the container (zero for
  an empty one). For a single array it is not a tuple and counts one array.
\<close>

theorem MessageType_descriptor_fidelity:
  assumes "MessageType obj = Inr m"
  shows "length (ndims m) = narr m \<and> length (shapes m) = narr m
       \<and> map length (shapes m) = ndims m
       \<and> (is_tuple m \<longrightarrow> narr m = length (iter obj))
       \<and> (is_ndarray obj \<longrightarrow> \<not> is_tuple m \<and> narr m = 1)"
proof -
  from MessageType_Inr [OF assms]
  have m: "m = \<lparr>is_tuple = \<not> is_ndarray obj, narr = length (payload_arrays obj),
              ndims = map ndim (payload_arrays obj), shapes = map shape (payload_arrays obj)\<rparr>"
    and objs: "(if is_ndarray obj then [obj] else iter obj) = map NdArray (payload_arrays obj)"
    by simp_all
  have len: "length (if is_ndarray obj then [obj] else iter obj) = length (payload_arrays obj)"
    using arg_cong [OF objs, of length] by simp
  have "map length (map shape (payload_arrays obj)) = map ndim (payload_arrays obj)"
    by (simp add: ndim_def comp_def)
  then show ?thesis using m len by (auto split: if_splits)
qed

theorem MessageType_descriptor_fidelity_witness:
  "MessageType (NdArray arr22) = Inr \<lparr>is_tuple = False, narr = 1, ndims = [2], shapes = [[2, 2]]\<rparr>
   \<and> length (ndims \<lparr>is_tuple = False, narr = 1, ndims = [2], shapes = [[2, 2]]\<rparr>) = 1
   \<and> map length (shapes \<lparr>is_tuple = False, narr = 1, ndims = [2], shapes = [[2, 2]]\<rparr>) = [2]"
proof -
  have h: "MessageType (NdArray arr22) = Inr \<lparr>is_tuple = False, narr = 1, ndims = [2], shapes = [[2, 2]]\<rparr>"
    by (simp add: MessageType_def ndim_def arr22_def)
  from MessageType_descriptor_fidelity [OF h] h show ?thesis by simp
qed

text \<open>
  C3 as stated fails: the empty tuple is accepted, and its descriptor counts zero
  arrays.
\<close>

theorem MessageType_empty_tuple_counterexample:
  "MessageType (PyTuple []) = Inr \<lparr>is_tuple = True, narr = 0, ndims = [], shapes = []\<rparr>
   \<and> \<not> 1 \<le> narr \<lparr>is_tuple = True, narr = 0, ndims = [], shapes = []\<rparr>"
  by (simp add: MessageType_def)

section \<open>Sending\<close>

lemma Send_loop_arrays:
  "Send_loop c (map NdArray as) dest tag w =
     (Inr (), w\<lparr>ops := ops w @ map (\<lambda>a. Op_Send (rank c, dest, tag) (data a)) as,
                inflight := inflight w @ map (\<lambda>a. ((rank c, dest, tag), Bulk (data a))) as\<rparr>)"
proof (induction as arbitrary: w)
  case Nil
  show ?case by simp
next
  case (Cons a as)
  show ?case by (simp add: Cons.IH mpi_Send_def)
qed

lemma send_accepted:
  assumes "MessageType obj = Inr m"
  shows "send self obj dest tag w =
     (Inr (),
      w\<lparr>ops := ops w @ Op_send (rank (mpi_comm self), dest, tag) m
                  # map (\<lambda>a. Op_Send (rank (mpi_comm self), dest, tag) (data a)) (payload_arrays obj),
        inflight := inflight w @ ((rank (mpi_comm self), dest, tag), Header m)
                  # map (\<lambda>a. ((rank (mpi_comm self), dest, tag), Bulk (data a))) (payload_arrays obj)\<rparr>)"
proof -
  from MessageType_Inr [OF assms]
  have m: "is_tuple m = (\<not> is_ndarray obj)"
    and objs: "(if is_ndarray obj then [obj] else iter obj) = map NdArray (payload_arrays obj)"
    by simp_all
  have "(if \<not> is_tuple m then [obj] else iter obj) = map NdArray (payload_arrays obj)"
    using m objs by simp
  then show ?thesis
    using assms by (simp add: send_def Let_def Send_loop_arrays mpi_send_def)
qed

text \<open>
  C8. For an accepted payload \<^verbatim>\<open>send\<close> first transmits the descriptor, then one
  buffer per declared array in descriptor order, a single array being a sequence of
  one, all under the same source, destination and tag.
\<close>

theorem send_header_then_bulk_in_order:
  assumes "MessageType obj = Inr m"
  shows "\<exists>arrays. length arrays = narr m \<and> map shape arrays = shapes m
       \<and> (if is_tuple m then iter obj else [obj]) = map NdArray arrays
       \<and> send self obj dest tag w =
          (Inr (),
           w\<lparr>ops := ops w @ Op_send (rank (mpi_comm self), dest, tag) m
                       # map (\<lambda>a. Op_Send (rank (mpi_comm self), dest, tag) (data a)) arrays,
             inflight := inflight w @ ((rank (mpi_comm self), dest, tag), Header m)
                       # map (\<lambda>a. ((rank (mpi_comm self), dest, tag), Bulk (data a))) arrays\<rparr>)"
proof (intro exI conjI)
  from MessageType_Inr [OF assms]
  have m: "m = \<lparr>is_tuple = \<not> is_ndarray obj, narr = length (payload_arrays obj),
              ndims = map ndim (payload_arrays obj), shapes = map shape (payload_arrays obj)\<rparr>"
    and objs: "(if is_ndarray obj then [obj] else iter obj) = map NdArray (payload_arrays obj)"
    by simp_all
  show "length (payload_arrays obj) = narr m" using m by simp
  show "map shape (payload_arrays obj) = shapes m" using m by simp
  show "(if is_tuple m then iter obj else [obj]) = map NdArray (payload_arrays obj)"
    using m objs by (cases "is_ndarray obj") simp_all
  show "send self obj dest tag w =
          (Inr (),
           w\<lparr>ops := ops w @ Op_send (rank (mpi_comm self), dest, tag) m
                       # map (\<lambda>a. Op_Send (rank (mpi_comm self), dest, tag) (data a)) (payload_arrays obj),
             inflight := inflight w @ ((rank (mpi_comm self), dest, tag), Header m)
                       # map (\<lambda>a. ((rank (mpi_comm self), dest, tag), Bulk (data a))) (payload_arrays obj)\<rparr>)"
    by (rule send_accepted [OF assms])
qed

theorem send_header_then_bulk_in_order_witness:
  "send (proc 0) (PyTuple [NdArray arr3, NdArray arr22]) 1 7 idle =
     (Inr (),
      \<lparr>ops = [Op_send (0, 1, 7) \<lparr>is_tuple = True, narr = 2, ndims = [1, 2], shapes = [[3], [2, 2]]\<rparr>,
              Op_Send (0, 1, 7) (data arr3), Op_Send (0, 1, 7) (data arr22)],
       inflight = [((0, 1, 7), Header \<lparr>is_tuple = True, narr = 2, ndims = [1, 2], shapes = [[3], [2, 2]]\<rparr>),
                   ((0, 1, 7), Bulk (data arr3)), ((0, 1, 7), Bulk (data arr22))]\<rparr>)"
proof -
  let ?m = "\<lparr>is_tuple = True, narr = 2, ndims = [1, 2], shapes = [[3], [2, 2]]\<rparr>"
  have h: "MessageType (PyTuple [NdArray arr3, NdArray arr22]) = Inr ?m"
    by (simp add: MessageType_def ndim_def arr3_def arr22_def)
  from send_header_then_bulk_in_order [OF h, of "proc 0" 1 7 idle]
  obtain arrays where a: "(if is_tuple ?m then iter (PyTuple [NdArray arr3, NdArray arr22])
                          else [PyTuple [NdArray arr3, NdArray arr22]]) = map NdArray arrays"
    and s: "send (proc 0) (PyTuple [NdArray arr3, NdArray arr22]) 1 7 idle =
          (Inr (),
           idle\<lparr>ops := ops idle @ Op_send (rank (mpi_comm (proc 0)), 1, 7) ?m
                       # map (\<lambda>a. Op_Send (rank (mpi_comm (proc 0)), 1, 7) (data a)) arrays,
             inflight := inflight idle @ ((rank (mpi_comm (proc 0)), 1, 7), Header ?m)
                       # map (\<lambda>a. ((rank (mpi_comm (proc 0)), 1, 7), Bulk (data a))) arrays\<rparr>)"
    by blast
  from a have "map NdArray arrays = map NdArray [arr3, arr22]" by simp
  then have "the_arrays (map NdArray arrays) = the_arrays (map NdArray [arr3, arr22])"
    by (rule arg_cong)
  then have "arrays = [arr3, arr22]"
    by (simp only: the_arrays_map)
  with s show ?thesis
    by (simp add: idle_def proc_def CommunicatorBase_init_def)
qed

text \<open>
  C5. A payload that is neither an array nor iterable makes \<^verbatim>\<open>send\<close> fail with
  \<^verbatim>\<open>ValueError\<close> while the descriptor is built: the transport is left untouched.
\<close>

theorem send_invalid_payload_kind:
  assumes "\<not> is_ndarray obj" and "\<not> is_Iterable obj"
  shows "MessageType obj = Inl ValueError \<and> send self obj dest tag w = (Inl ValueError, w)"
  using assms by (cases obj) (simp_all add: MessageType_def send_def)

theorem send_invalid_payload_kind_witness:
  "\<not> is_ndarray (PyInt 5) \<and> \<not> is_Iterable (PyInt 5)
   \<and> send (proc 0) (PyInt 5) 1 7 idle = (Inl ValueError, idle)"
  using send_invalid_payload_kind [of "PyInt 5" "proc 0" 1 7 idle] by simp



section \<open>Receiving\<close>









lemma Recv_one_empty_shape: "Recv_one uninit c [] source tag w = (Inl TypeError, w)"
  by (simp add: Recv_one_def numpy_prod_def)














section \<open>Round trip\<close>






section \<open>Lazy construction of the scopes\<close>

lemma init_comms_dev:
  assumes "init_comms c ir isz nr u w = ((intra_c, inter_c, dev), w')"
  shows "u \<longrightarrow> dev \<noteq> None"
  using assms by (auto simp: init_comms_def Let_def split: prod.splits if_splits)

lemma self_init_comms_builds:
  assumes "inter_mpi_comm s = None"
  shows "\<exists>s1 w1. self_init_comms s w = (Inr s1, w1) \<and> Initialized s1"
proof -
  obtain intra_c inter_c dev w' where
    ic: "init_comms (mpi_comm s) (intra_rank s) (intra_size s) (inter_rank s) (use_nccl s) w
          = ((intra_c, inter_c, dev), w')"
    by (metis prod.exhaust)
  from init_comms_dev [OF ic] have dev: "use_nccl s \<longrightarrow> (\<exists>d. dev = Some d)" by auto
  have "self_init_comms s w =
      (Inr (s\<lparr>intra_mpi_comm := Some intra_c, inter_mpi_comm := Some inter_c,
                        intra_nccl_comm :=
                          (if use_nccl s then Some dev else intra_nccl_comm s)\<rparr>), w')"
    using assms ic by (simp add: self_init_comms_def)
  moreover have "Initialized (s\<lparr>intra_mpi_comm := Some intra_c, inter_mpi_comm := Some inter_c,
                        intra_nccl_comm :=
                          (if use_nccl s then Some dev else intra_nccl_comm s)\<rparr>)"
    using dev by (auto simp: Initialized_def)
  ultimately show ?thesis by blast
qed

lemma self_init_comms_guard:
  assumes "Initialized s"
  shows "self_init_comms s w = (Inr s, w)"
  using assms by (auto simp: Initialized_def self_init_comms_def)

text \<open>
  C6. On an initialized communicator \<^verbatim>\<open>_init_comms\<close> returns at once: the communicator
  and the transport are unchanged, and nothing is raised. On an uninitialized one the
  first call builds the scopes and a second call leaves them as the first made them.
\<close>

theorem self_init_comms_idempotent:
  "(Initialized s \<longrightarrow> self_init_comms s w = (Inr s, w))
   \<and> (inter_mpi_comm s = None \<longrightarrow>
        (\<exists>s1 w1. self_init_comms s w = (Inr s1, w1) \<and> Initialized s1
           \<and> self_init_comms s1 w1 = (Inr s1, w1)))"
proof (intro conjI impI)
  assume "Initialized s"
  then show "self_init_comms s w = (Inr s, w)" by (rule self_init_comms_guard)
next
  assume "inter_mpi_comm s = None"
  from self_init_comms_builds [OF this, of w]
  obtain s1 w1 where "self_init_comms s w = (Inr s1, w1)" and i: "Initialized s1" by blast
  moreover have "self_init_comms s1 w1 = (Inr s1, w1)" using i by (rule self_init_comms_guard)
  ultimately show "\<exists>s1 w1. self_init_comms s w = (Inr s1, w1) \<and> Initialized s1
           \<and> self_init_comms s1 w1 = (Inr s1, w1)" by blast
qed

theorem self_init_comms_idempotent_witness:
  "Initialized built \<and> self_init_comms built idle = (Inr built, idle)
   \<and> inter_mpi_comm unbuilt = None
   \<and> (\<exists>s1 w1. self_init_comms unbuilt idle = (Inr s1, w1) \<and> Initialized s1
         \<and> self_init_comms s1 w1 = (Inr s1, w1))"
proof -
  have h1: "Initialized built" by (simp add: built_def Initialized_def)
  have h2: "inter_mpi_comm unbuilt = None" by (simp add: unbuilt_def)
  from self_init_comms_idempotent [of built idle] self_init_comms_idempotent [of unbuilt idle] h1 h2
  show ?thesis by blast
qed

lemma self_init_comms_example: "fst (self_init_comms unbuilt idle) = Inr built"
  by (simp add: self_init_comms_def init_comms_def mpi_Split_def init_ranks_def unbuilt_def
      built_def four_def idle_def comm_size_def Let_def upt_rec)

section \<open>Construction of the node-aware communicator\<close>

text \<open>
  C7. When device collectives are requested and the library is unavailable, the
  constructor fails with \<^verbatim>\<open>RuntimeError\<close> before topology discovery: the transport is
  untouched. Otherwise it runs topology discovery once, stores its result, and leaves
  every scope unbuilt.
\<close>

theorem NodeAwareCommunicatorBase_init_fail_fast:
  "(use_nccl' \<and> \<not> nccl_available \<longrightarrow>
      NodeAwareCommunicatorBase_init nccl_available c use_nccl' w = (Inl RuntimeError, w))
   \<and> (\<not> (use_nccl' \<and> \<not> nccl_available) \<longrightarrow>
      (\<exists>s. NodeAwareCommunicatorBase_init nccl_available c use_nccl' w
              = (Inr s, w\<lparr>ops := ops w @ [Op_init_ranks c]\<rparr>)
         \<and> mpi_comm s = c \<and> use_nccl s = use_nccl'
         \<and> (rank c, intra_rank s, intra_size s, inter_rank s, inter_size s) = init_ranks c
         \<and> inter_mpi_comm s = None \<and> intra_mpi_comm s = None
         \<and> intra_nccl_comm s = (if use_nccl' then Some None else None)
         \<and> \<not> Initialized s))"
  by (auto simp: NodeAwareCommunicatorBase_init_def self_init_ranks_def init_ranks_def
      Initialized_def Let_def)

theorem NodeAwareCommunicatorBase_init_fail_fast_witness:
  "NodeAwareCommunicatorBase_init False (four 2) True idle = (Inl RuntimeError, idle)
   \<and> NodeAwareCommunicatorBase_init True (four 2) True idle
       = (Inr unbuilt, \<lparr>ops = [Op_init_ranks (four 2)], inflight = []\<rparr>)"
proof -
  from NodeAwareCommunicatorBase_init_fail_fast [of True False "four 2" idle]
  have a: "NodeAwareCommunicatorBase_init False (four 2) True idle = (Inl RuntimeError, idle)"
    by simp
  from NodeAwareCommunicatorBase_init_fail_fast [of True True "four 2" idle]
  obtain s where s: "NodeAwareCommunicatorBase_init True (four 2) True idle
              = (Inr s, idle\<lparr>ops := ops idle @ [Op_init_ranks (four 2)]\<rparr>)"
    and f: "mpi_comm s = four 2" "use_nccl s = True"
      "(rank (four 2), intra_rank s, intra_size s, inter_rank s, inter_size s) = init_ranks (four 2)"
      "inter_mpi_comm s = None" "intra_mpi_comm s = None" "intra_nccl_comm s = Some None"
    by auto
  have "init_ranks (four 2) = (2, 0, 2, 1, 2)"
    by (simp add: init_ranks_def four_def)
  with f have "s = unbuilt"
    by (cases s) (simp add: unbuilt_def)
  with s a show ?thesis by (simp add: idle_def)
qed

section \<open>Splitting\<close>

text \<open>
  C2. \<^verbatim>\<open>split\<close> on an instance of the node-aware class performs the partition of the
  process group and then raises \<^verbatim>\<open>TypeError\<close>: the class is called with \<^verbatim>\<open>mpi_comm\<close> only,
  and its \<^verbatim>\<open>__init__\<close> requires \<^verbatim>\<open>use_nccl\<close>. No new communicator is returned.
\<close>

theorem split_node_aware_raises_TypeError:
  "split nccl_available (NodeAwareCommunicatorBase_object s) peers color key w
     = (Inl TypeError, w\<lparr>ops := ops w @ [Op_Split (mpi_comm s) color key]\<rparr>)"
  by (simp add: split_def mpi_Split_def Let_def)

lemma split_base:
  "split nccl_available (CommunicatorBase_object s) peers color key w
     = (Inr (CommunicatorBase_object
              \<lparr>mpi_comm = fst (mpi_Split (mpi_comm s) peers color key w)\<rparr>),
        w\<lparr>ops := ops w @ [Op_Split (mpi_comm s) color key]\<rparr>)"
  by (simp add: split_def mpi_Split_def Let_def CommunicatorBase_init_def)

end
